theory Spec2Isabelle
  imports Main "HOL-Library.Word"
begin

unbundle bit_operations_syntax

section \<open>Python values, exceptions and the builtins the library calls\<close>

text \<open>
  The module \<open>pyip.py\<close> is read as a Python 3 program, the language in which
  \<open>socket.inet_pton\<close> raises the \<open>OSError\<close> that the module catches: integers are
  unbounded (\<open>int\<close>, with no limit of memory), every integer is an instance of
  \<open>int\<close>, and \<open>long\<close> is not a builtin name. An exception is a value of \<open>error\<close>;
  a call that may raise returns \<open>error + 'a\<close> with \<open>Inl\<close> for the exception.
  The functions of the standard library that the module calls (\<open>str.split\<close>,
  \<open>str.strip\<close>, \<open>int\<close>, \<open>slice.indices\<close>, \<open>range\<close>, \<open>struct.unpack\<close>,
  \<open>socket.inet_pton\<close>) are written out as their documentation and CPython define
  them.
\<close>

datatype error =
    ValueError | TypeError | IndexError | AttributeError
  | NameError | OverflowError | StructError

text \<open>The objects the library inspects with \<open>isinstance\<close>: a \<open>str\<close>, an \<open>int\<close>, or
  something else (\<open>None\<close>).\<close>

datatype pyval = PyStr string | PyInt int | PyNone

definition bindE :: "error + 'a \<Rightarrow> ('a \<Rightarrow> error + 'b) \<Rightarrow> error + 'b" where
  "bindE m f = (case m of Inl e \<Rightarrow> Inl e | Inr x \<Rightarrow> f x)"

text \<open>\<open>version or default\<close>: \<open>None\<close> and \<open>0\<close> are falsy.\<close>

definition version_or :: "int option \<Rightarrow> int \<Rightarrow> int" where
  "version_or v d = (case v of None \<Rightarrow> d | Some n \<Rightarrow> if n = 0 then d else n)"

text \<open>Truthiness of an optional string argument: \<open>None\<close> and \<open>''\<close> are falsy.\<close>

definition truthy :: "string option \<Rightarrow> bool" where
  "truthy a = (case a of None \<Rightarrow> False | Some s \<Rightarrow> s \<noteq> [])"

subsection \<open>\<open>str.strip\<close>, \<open>str.split\<close>, \<open>int(str)\<close>\<close>

text \<open>\<open>str.isspace\<close> on the code points below 256.\<close>

definition py_isspace :: "char \<Rightarrow> bool" where
  "py_isspace c = (of_char c \<in> {9, 10, 11, 12, 13, 28, 29, 30, 31, 32, 133, 160 :: nat})"

definition str_strip :: "string \<Rightarrow> string" where
  "str_strip s = rev (dropWhile py_isspace (rev (dropWhile py_isspace s)))"

text \<open>\<open>s.split(sep)\<close> for a one-character separator: one more part than separators.\<close>

fun str_split :: "char \<Rightarrow> string \<Rightarrow> string list" where
  "str_split sep [] = [[]]"
| "str_split sep (c # cs) =
     (if c = sep then [] # str_split sep cs
      else (case str_split sep cs of p # ps \<Rightarrow> (c # p) # ps | [] \<Rightarrow> [[c]]))"

definition is_digit :: "char \<Rightarrow> bool" where
  "is_digit c = (48 \<le> (of_char c :: nat) \<and> (of_char c :: nat) \<le> 57)"

definition digit_val :: "char \<Rightarrow> nat" where
  "digit_val c = of_char c - 48"

definition dec_value :: "string \<Rightarrow> nat" where
  "dec_value ds = foldl (\<lambda>a c. 10 * a + digit_val c) 0 ds"

text \<open>
  \<open>int(s)\<close> for a string in base 10, as CPython reads it. The whitespace dropped on
  both sides is the C set (tab, line feed, vertical tab, form feed, carriage return,
  space) and, of the code points from 128 to 255, the two Unicode spaces U+0085 and
  U+00A0; the separators U+001C to U+001F, which \<open>str.strip\<close> removes, are refused
  here. Then one sign is allowed, then decimal digits in groups separated by single
  underscores, at most \<open>max_str_digits\<close> digits in all (the interpreter's default
  limit). Anything else raises \<open>ValueError\<close> (\<open>None\<close> here).
\<close>

definition int_isspace :: "char \<Rightarrow> bool" where
  "int_isspace c = (of_char c \<in> {9, 10, 11, 12, 13, 32, 133, 160 :: nat})"

definition max_str_digits :: nat where
  "max_str_digits = 4300"

definition digit_group :: "string \<Rightarrow> bool" where
  "digit_group g = (g \<noteq> [] \<and> list_all is_digit g)"

definition py_int :: "string \<Rightarrow> int option" where
  "py_int s =
     (let t = rev (dropWhile int_isspace (rev (dropWhile int_isspace s)));
          neg = (case t of [] \<Rightarrow> False | c # _ \<Rightarrow> c = CHR ''-'');
          d = (case t of [] \<Rightarrow> [] | c # r \<Rightarrow> if c = CHR ''-'' \<or> c = CHR ''+'' then r else t);
          digits = filter (\<lambda>c. c \<noteq> CHR ''_'') d
      in if list_all digit_group (str_split CHR ''_'' d) \<and> length digits \<le> max_str_digits
         then Some ((if neg then - 1 else 1) * int (dec_value digits))
         else None)"

subsection \<open>\<open>socket.inet_pton\<close> and \<open>struct.unpack\<close>\<close>

type_synonym byte = "8 word"

text \<open>
  \<open>inet_pton(AF_INET, s)\<close>: exactly four decimal fields separated by dots, each of one to
  three digits with no leading zero and a value of at most 255 (the C library's rule).
  \<open>None\<close> stands for the \<open>OSError\<close> it raises.
\<close>

definition octet :: "string \<Rightarrow> byte option" where
  "octet p =
     (if digit_group p \<and> (length p = 1 \<or> hd p \<noteq> CHR ''0'') \<and> length p \<le> 3 \<and> dec_value p \<le> 255
      then Some (of_nat (dec_value p)) else None)"

definition inet_pton4 :: "string \<Rightarrow> byte list option" where
  "inet_pton4 s =
     (case those (map octet (str_split CHR ''.'' s)) of
        None \<Rightarrow> None
      | Some bs \<Rightarrow> if length bs = 4 then Some bs else None)"

text \<open>
  \<open>inet_pton(AF_INET6, s)\<close>: groups of one to four hexadecimal digits separated by
  colons, at most one \<open>::\<close> standing for one or more zero groups, and optionally a dotted
  IPv4 address as the last group; sixteen bytes in all.
\<close>

definition hex_val :: "char \<Rightarrow> nat option" where
  "hex_val c =
     (let n = (of_char c :: nat) in
      if 48 \<le> n \<and> n \<le> 57 then Some (n - 48)
      else if 97 \<le> n \<and> n \<le> 102 then Some (n - 87)
      else if 65 \<le> n \<and> n \<le> 70 then Some (n - 55)
      else None)"

definition hextet :: "string \<Rightarrow> byte list option" where
  "hextet g =
     (case those (map hex_val g) of
        None \<Rightarrow> None
      | Some ds \<Rightarrow>
          if ds \<noteq> [] \<and> length ds \<le> 4
          then (let v = foldl (\<lambda>a d. 16 * a + d) 0 ds
                in Some [of_nat (v div 256), of_nat (v mod 256)])
          else None)"

fun groups6 :: "bool \<Rightarrow> string list \<Rightarrow> byte list option" where
  "groups6 tail [] = Some []"
| "groups6 tail [g] = (if tail \<and> CHR ''.'' \<in> set g then inet_pton4 g else hextet g)"
| "groups6 tail (g # gs) =
     (case hextet g of
        None \<Rightarrow> None
      | Some b \<Rightarrow> (case groups6 tail gs of None \<Rightarrow> None | Some bs \<Rightarrow> Some (b @ bs)))"

fun split_dcolon :: "string \<Rightarrow> (string \<times> string) option" where
  "split_dcolon (a # b # cs) =
     (if a = CHR '':'' \<and> b = CHR '':'' then Some ([], cs)
      else (case split_dcolon (b # cs) of None \<Rightarrow> None | Some (l, r) \<Rightarrow> Some (a # l, r)))"
| "split_dcolon cs = None"

definition fields6 :: "string \<Rightarrow> string list" where
  "fields6 s = (if s = [] then [] else str_split CHR '':'' s)"

definition inet_pton6 :: "string \<Rightarrow> byte list option" where
  "inet_pton6 s =
     (case split_dcolon s of
        None \<Rightarrow>
          (case groups6 True (str_split CHR '':'' s) of
             None \<Rightarrow> None
           | Some bs \<Rightarrow> if length bs = 16 then Some bs else None)
      | Some (l, r) \<Rightarrow>
          (case groups6 False (fields6 l) of
             None \<Rightarrow> None
           | Some bl \<Rightarrow>
               (case groups6 True (fields6 r) of
                  None \<Rightarrow> None
                | Some br \<Rightarrow>
                    if length bl + length br \<le> 14
                    then Some (bl @ replicate (16 - (length bl + length br)) 0 @ br)
                    else None)))"

text \<open>Big-endian reading of a byte string, as \<open>struct.unpack\<close> with \<open>!\<close> does.\<close>

definition be_int :: "byte list \<Rightarrow> int" where
  "be_int bs = foldl (\<lambda>a b. a * 256 + uint b) 0 bs"

text \<open>\<open>unpack('!L', b)[0]\<close>: \<open>struct.error\<close> unless \<open>b\<close> has four bytes.\<close>

definition unpack_L :: "byte list \<Rightarrow> error + int" where
  "unpack_L bs = (if length bs = 4 then Inr (be_int bs) else Inl StructError)"

text \<open>\<open>unpack('!QQ', b)\<close>: two unsigned 64-bit values from sixteen bytes.\<close>

definition unpack_QQ :: "byte list \<Rightarrow> error + int \<times> int" where
  "unpack_QQ bs =
     (if length bs = 16 then Inr (be_int (take 8 bs), be_int (drop 8 bs)) else Inl StructError)"

section \<open>Converter\<close>

definition v4_MAX :: int where
  "v4_MAX = 4294967295"

definition v6_MAX :: int where
  "v6_MAX = 340282366920938463463374607431768211455"

text \<open>\<open>Converter.get_version\<close>: by magnitude for an \<open>int\<close>, by the presence of a dot for a
  \<open>str\<close>, and 4 for anything else.\<close>

fun get_version :: "pyval \<Rightarrow> int" where
  "get_version (PyInt n) = (if 0 \<le> n \<and> n \<le> v4_MAX then 4 else 6)"
| "get_version (PyStr s) = (if CHR ''.'' \<in> set s then 4 else 6)"
| "get_version PyNone = 4"

text \<open>\<open>Converter.v4_to_int\<close>: the \<open>OSError\<close> of \<open>inet_pton\<close> is caught and re-raised as
  \<open>ValueError\<close>.\<close>

definition v4_to_int :: "string \<Rightarrow> error + int" where
  "v4_to_int ip =
     (case inet_pton4 ip of
        None \<Rightarrow> Inl ValueError
      | Some bs \<Rightarrow> unpack_L bs)"

definition v6_to_int :: "string \<Rightarrow> error + int" where
  "v6_to_int ip =
     (case inet_pton6 ip of
        None \<Rightarrow> Inl ValueError
      | Some bs \<Rightarrow> bindE (unpack_QQ bs) (\<lambda>(hi, lo). Inr (push_bit 64 hi OR lo)))"

text \<open>The codec an object selects at construction:
  \<open>v4_to_int if self.version == 4 else v6_to_int\<close>.\<close>

definition to_int_of :: "int \<Rightarrow> string \<Rightarrow> error + int" where
  "to_int_of v = (if v = 4 then v4_to_int else v6_to_int)"

section \<open>IPAddress\<close>

text \<open>The class object stored in \<open>self.int_\<close>. Python 3 has the builtin \<open>int\<close> only;
  evaluating the name \<open>long\<close> raises \<open>NameError\<close>.\<close>

datatype pytype = IntType

definition builtin_long :: "error + pytype" where
  "builtin_long = Inl NameError"

record IPAddress =
  ip :: pyval
  ip_version :: int
  int_ :: pytype

text \<open>\<open>IPAddress.__init__\<close>. The conditional expression
  \<open>int if self.version == 4 else long\<close> evaluates \<open>long\<close> only when the version is
  not 4. The two codec attributes are functions of the version (\<open>to_int_of\<close>).\<close>

definition IPAddress_init :: "pyval \<Rightarrow> int option \<Rightarrow> error + IPAddress" where
  "IPAddress_init ip0 ver =
     (let v = version_or ver (get_version ip0)
      in bindE (if v = 4 then Inr IntType else builtin_long)
           (\<lambda>t. Inr \<lparr>ip = ip0, ip_version = v, int_ = t\<rparr>))"

text \<open>\<open>int(a)\<close> through \<open>IPAddress.__int__\<close>: the text goes through the address's own
  codec, an integer is returned as it is; \<open>int()\<close> rejects any other value that
  \<open>__int__\<close> returns with \<open>TypeError\<close>.\<close>

definition IPAddress_int :: "IPAddress \<Rightarrow> error + int" where
  "IPAddress_int a =
     (case ip a of
        PyStr s \<Rightarrow> to_int_of (ip_version a) s
      | PyInt n \<Rightarrow> Inr n
      | PyNone \<Rightarrow> Inl TypeError)"

section \<open>IPNetwork and IPRange\<close>

text \<open>
  Both classes keep \<open>self.version\<close> and the pair \<open>self.range = (lo, hi)\<close>, and their
  methods \<open>__len__\<close>, \<open>__contains__\<close>, \<open>__getitem__\<close> and \<open>iter_\<close> are the same text
  line for line. The common fields are the record \<open>ip_range\<close>, which each class extends,
  and each method is one definition over every extension of it.
\<close>

record ip_range =
  version :: int
  bounds :: "int \<times> int"

record IPNetwork = ip_range +
  network :: string
  bit_width :: int

record IPRange = ip_range +
  range_text :: "string option"

text \<open>\<open>IPNetwork.expand\<close>. Unpacking \<open>split('/')\<close> into two names raises
  \<open>ValueError\<close> unless there are exactly two parts. The shift count \<open>bits\<close> is never
  negative here, since \<open>int(cidr) \<le> self.bit\<close> past the check.\<close>

definition IPNetwork_expand :: "string \<Rightarrow> int \<Rightarrow> int \<Rightarrow> error + int \<times> int" where
  "IPNetwork_expand net v bit_w =
     (case str_split CHR ''/'' net of
        [ip0, cidr] \<Rightarrow>
          (case py_int cidr of
             None \<Rightarrow> Inl ValueError
           | Some c \<Rightarrow>
               if c > bit_w then Inl ValueError
               else
                 (let bits = nat (bit_w - c)
                  in bindE (to_int_of v ip0)
                       (\<lambda>i. let lo = push_bit bits (drop_bit bits i);
                                hi = lo OR (push_bit bits 1 - 1)
                            in Inr (lo, hi))))
      | _ \<Rightarrow> Inl ValueError)"

definition IPNetwork_init :: "string \<Rightarrow> int option \<Rightarrow> error + IPNetwork" where
  "IPNetwork_init net ver =
     (if CHR ''/'' \<notin> set net then Inl AttributeError
      else
        (let v = version_or ver (get_version (PyStr net));
             bit_w = (if v = 4 then 32 else 128)
         in bindE (IPNetwork_expand net v bit_w)
              (\<lambda>r. Inr \<lparr>version = v, bounds = r, network = net, bit_width = bit_w\<rparr>)))"

text \<open>\<open>IPRange.expand\<close>: the dash form, with the check that the upper bound is not
  below the lower one.\<close>

definition IPRange_expand :: "string \<Rightarrow> int \<Rightarrow> error + int \<times> int" where
  "IPRange_expand rtxt v =
     (case str_split CHR ''-'' rtxt of
        [start, stop] \<Rightarrow>
          bindE (to_int_of v (str_strip start))
            (\<lambda>lo. bindE (to_int_of v (str_strip stop))
               (\<lambda>hi. if hi < lo then Inl ValueError else Inr (lo, hi)))
      | _ \<Rightarrow> Inl ValueError)"

text \<open>\<open>IPRange.__init__(range_, start, stop, version)\<close>. \<open>self.range_\<close> is
  \<open>range_ or start\<close>; the version is detected on it when none is given.\<close>

definition IPRange_init ::
  "string option \<Rightarrow> string option \<Rightarrow> string option \<Rightarrow> int option \<Rightarrow> error + IPRange" where
  "IPRange_init range0 start stop ver =
     (let self_range = (if truthy range0 then range0 else start);
          v = version_or ver
                (get_version (case self_range of None \<Rightarrow> PyNone | Some s \<Rightarrow> PyStr s))
      in if truthy range0 then
           (case range0 of
              None \<Rightarrow> Inl ValueError
            | Some r \<Rightarrow>
                if CHR ''-'' \<notin> set r then Inl AttributeError
                else bindE (IPRange_expand r v)
                       (\<lambda>b. Inr \<lparr>version = v, bounds = b, range_text = self_range\<rparr>))
         else if truthy start \<and> truthy stop then
           (case (start, stop) of
              (Some s, Some t) \<Rightarrow>
                bindE (to_int_of v (str_strip s))
                  (\<lambda>lo. bindE (to_int_of v (str_strip t))
                     (\<lambda>hi. Inr \<lparr>version = v, bounds = (lo, hi), range_text = self_range\<rparr>))
            | _ \<Rightarrow> Inl ValueError)
         else Inl ValueError)"

section \<open>The range protocol: length, membership, indexing, iteration\<close>

text \<open>\<open>__len__\<close>, called as a method: \<open>(self.range[1] + 1) - self.range[0]\<close>.\<close>

definition dunder_len :: "'a ip_range_scheme \<Rightarrow> int" where
  "dunder_len r = (snd (bounds r) + 1) - fst (bounds r)"

text \<open>A candidate of \<open>__contains__\<close>: an \<open>IPAddress\<close> instance or another object.\<close>

datatype candidate = CAddr IPAddress | CVal pyval

text \<open>\<open>__contains__\<close>. An \<open>IPAddress\<close> is converted by \<open>int(ip)\<close>, an \<open>int\<close> is taken as it
  is, and anything else goes to the range's codec (\<open>inet_pton\<close> raises \<open>TypeError\<close> for
  an argument that is not a string).\<close>

definition dunder_contains :: "'a ip_range_scheme \<Rightarrow> candidate \<Rightarrow> error + bool" where
  "dunder_contains r c =
     bindE (case c of
              CAddr a \<Rightarrow> IPAddress_int a
            | CVal (PyInt n) \<Rightarrow> Inr n
            | CVal (PyStr s) \<Rightarrow> to_int_of (version r) s
            | CVal PyNone \<Rightarrow> Inl TypeError)
       (\<lambda>x. Inr (fst (bounds r) \<le> x \<and> x \<le> snd (bounds r)))"

subsection \<open>Indices\<close>

text \<open>A finite float is \<open>m * 2 ^ e\<close> for integers \<open>m\<close> and \<open>e\<close>.\<close>

datatype pyfloat = Finite int int | Infinity | NaN

text \<open>What \<open>__getitem__\<close> may receive: a slice (the only object here with an
  \<open>indices\<close> attribute), an \<open>int\<close>, a \<open>float\<close>, a \<open>str\<close>, or an object that \<open>int()\<close>
  does not accept at all (\<open>None\<close>, a list).\<close>

datatype py_index =
    Slice "int option" "int option" "int option"
  | IdxInt int
  | IdxFloat pyfloat
  | IdxStr string
  | IdxOther

text \<open>What \<open>__getitem__\<close> returns: a list of addresses for a slice, one address
  otherwise.\<close>

datatype item = Addr IPAddress | Addrs "IPAddress list"

text \<open>\<open>slice(start, stop, step).indices(length)\<close>, as CPython computes it.\<close>

definition slice_indices ::
  "int option \<Rightarrow> int option \<Rightarrow> int option \<Rightarrow> int \<Rightarrow> error + int \<times> int \<times> int" where
  "slice_indices start0 stop0 step0 length0 =
     (let step = (case step0 of None \<Rightarrow> 1 | Some k \<Rightarrow> k) in
      if length0 < 0 then Inl ValueError
      else if step = 0 then Inl ValueError
      else
        (let lower = (if step < 0 then - 1 else 0);
             upper = (if step < 0 then length0 - 1 else length0);
             clamp = (\<lambda>i. if i < 0 then max (i + length0) lower else min i upper);
             start = (case start0 of
                        None \<Rightarrow> if step < 0 then upper else lower
                      | Some i \<Rightarrow> clamp i);
             stop = (case stop0 of
                       None \<Rightarrow> if step < 0 then lower else upper
                     | Some i \<Rightarrow> clamp i)
         in Inr (start, stop, step)))"

text \<open>\<open>range(start, stop, step)\<close> as a list: its length is CPython's, its \<open>i\<close>-th
  element is \<open>start + i * step\<close>.\<close>

definition range_len :: "int \<Rightarrow> int \<Rightarrow> int \<Rightarrow> nat" where
  "range_len start stop step =
     (if 0 < step \<and> start < stop then nat ((stop - start - 1) div step + 1)
      else if step < 0 \<and> stop < start then nat ((start - stop - 1) div (- step) + 1)
      else 0)"

definition py_range :: "int \<Rightarrow> int \<Rightarrow> int \<Rightarrow> error + int list" where
  "py_range start stop step =
     (if step = 0 then Inl ValueError
      else Inr (map (\<lambda>i. start + int i * step) [0..<range_len start stop step]))"

text \<open>A list comprehension whose element expression may raise.\<close>

fun mapE :: "('a \<Rightarrow> error + 'b) \<Rightarrow> 'a list \<Rightarrow> error + 'b list" where
  "mapE f [] = Inr []"
| "mapE f (x # xs) = bindE (f x) (\<lambda>y. bindE (mapE f xs) (\<lambda>ys. Inr (y # ys)))"

text \<open>\<open>int(index)\<close>: a float is truncated towards zero (\<open>OverflowError\<close> for an
  infinity, \<open>ValueError\<close> for a NaN), a string is parsed, other objects are refused with
  \<open>TypeError\<close>.\<close>

fun int_of_index :: "py_index \<Rightarrow> error + int" where
  "int_of_index (IdxInt n) = Inr n"
| "int_of_index (IdxFloat (Finite m e)) =
     Inr (if 0 \<le> e then m * 2 ^ nat e
          else sgn m * (\<bar>m\<bar> div 2 ^ nat (- e)))"
| "int_of_index (IdxFloat Infinity) = Inl OverflowError"
| "int_of_index (IdxFloat NaN) = Inl ValueError"
| "int_of_index (IdxStr s) = (case py_int s of None \<Rightarrow> Inl ValueError | Some n \<Rightarrow> Inr n)"
| "int_of_index (Slice a b c) = Inl TypeError"
| "int_of_index IdxOther = Inl TypeError"

text \<open>\<open>try: ... except ValueError: raise TypeError(...)\<close>.\<close>

definition except_ValueError :: "error + 'a \<Rightarrow> error + 'a" where
  "except_ValueError body =
     (case body of Inl e \<Rightarrow> if e = ValueError then Inl TypeError else Inl e | Inr x \<Rightarrow> Inr x)"

text \<open>\<open>__getitem__\<close>: the slice branch, then the scalar branch inside the \<open>try\<close>.\<close>

definition dunder_getitem :: "'a ip_range_scheme \<Rightarrow> py_index \<Rightarrow> error + item" where
  "dunder_getitem r idx =
     (let lo = fst (bounds r); hi = snd (bounds r); v = version r in
      case idx of
        Slice a b c \<Rightarrow>
          bindE (slice_indices a b c (dunder_len r))
            (\<lambda>(start, stop, step).
               if start + step < 0 \<or> step > stop
               then bindE (IPAddress_init (PyInt lo) (Some v)) (\<lambda>x. Inr (Addrs [x]))
               else bindE (py_range (lo + start) (lo + stop) step)
                      (\<lambda>xs. bindE (mapE (\<lambda>x. IPAddress_init (PyInt x) (Some v)) xs)
                         (\<lambda>ys. Inr (Addrs ys))))
      | _ \<Rightarrow>
          except_ValueError
            (bindE (int_of_index idx)
               (\<lambda>i. if - dunder_len r \<le> i \<and> i < 0
                    then bindE (IPAddress_init (PyInt (hi + i + 1)) (Some v)) (\<lambda>x. Inr (Addr x))
                    else if 0 \<le> i \<and> i \<le> dunder_len r - 1
                    then bindE (IPAddress_init (PyInt (lo + i)) (Some v)) (\<lambda>x. Inr (Addr x))
                    else Inl IndexError)))"

subsection \<open>Iteration\<close>

text \<open>The generator \<open>iter_\<close> (here \<open>iter_gen\<close>): its frame holds \<open>start\<close>, \<open>stop\<close> and \<open>index\<close>. Each call of
  \<open>iter_\<close> makes a new frame with \<open>index = 0\<close>.\<close>

record generator =
  g_start :: int
  g_stop :: int
  g_index :: int
  g_version :: int

definition iter_gen :: "'a ip_range_scheme \<Rightarrow> generator" where
  "iter_gen r = \<lparr>g_start = fst (bounds r), g_stop = snd (bounds r), g_index = 0,
              g_version = version r\<rparr>"

text \<open>One \<open>next()\<close>: \<open>None\<close> when the loop breaks (\<open>StopIteration\<close>), the exception when
  building the address raises, or the address yielded and the frame after it.\<close>

definition gen_next :: "generator \<Rightarrow> (error + IPAddress \<times> generator) option" where
  "gen_next g =
     (let ip0 = g_start g + g_index g;
          g' = g\<lparr>g_index := g_index g + 1\<rparr>
      in if ip0 > g_stop g then None
         else Some (bindE (IPAddress_init (PyInt ip0) (Some (g_version g)))
                      (\<lambda>a. Inr (a, g'))))"

text \<open>\<open>list(g)\<close>: calling \<open>next\<close> until the generator is exhausted or raises.\<close>

function drain :: "generator \<Rightarrow> error + IPAddress list" where
  "drain g =
     (case gen_next g of
        None \<Rightarrow> Inr []
      | Some (Inl e) \<Rightarrow> Inl e
      | Some (Inr (a, g')) \<Rightarrow> bindE (drain g') (\<lambda>as. Inr (a # as)))"
  by pat_completeness auto
termination
  by (relation "measure (\<lambda>g. nat (g_stop g + 1 - (g_start g + g_index g)))")
     (auto simp: gen_next_def bindE_def Let_def split: if_splits sum.splits)

declare drain.simps [simp del]

section \<open>Notions the properties are stated with\<close>

text \<open>The largest integer of a version's width: 32 bits for version 4, 128 bits
  otherwise.\<close>

definition max_of :: "int \<Rightarrow> int" where
  "max_of v = (if v = 4 then v4_MAX else v6_MAX)"

text \<open>The invariant of a range: ordered bounds that fit the version's width.\<close>

definition range_ok :: "'a ip_range_scheme \<Rightarrow> bool" where
  "range_ok r =
     (fst (bounds r) \<le> snd (bounds r) \<and> 0 \<le> fst (bounds r) \<and> snd (bounds r) \<le> max_of (version r))"

text \<open>The address object that wraps the integer \<open>x\<close> with version \<open>v\<close>.\<close>

definition address_of :: "int \<Rightarrow> int \<Rightarrow> IPAddress" where
  "address_of x v = \<lparr>ip = PyInt x, ip_version = v, int_ = IntType\<rparr>"

text \<open>Three ranges used as concrete inputs below: what the constructor returns for
  \<open>IPNetwork('10.0.0.0/24')\<close>, \<open>IPNetwork('192.168.1.0/24')\<close> and
  \<open>IPNetwork('::/126')\<close>.\<close>

definition net_10_0_0_0_24 :: IPNetwork where
  "net_10_0_0_0_24 =
     \<lparr>version = 4, bounds = (167772160, 167772415), network = ''10.0.0.0/24'', bit_width = 32\<rparr>"

definition net_192_168_1_0_24 :: IPNetwork where
  "net_192_168_1_0_24 =
     \<lparr>version = 4, bounds = (3232235776, 3232236031), network = ''192.168.1.0/24'',
      bit_width = 32\<rparr>"

definition net_v6_126 :: IPNetwork where
  "net_v6_126 = \<lparr>version = 6, bounds = (0, 3), network = ''::/126'', bit_width = 128\<rparr>"

section \<open>The codecs return integers of the version's width\<close>

lemma foldl_be_bounds:
  "0 \<le> a \<Longrightarrow> 0 \<le> foldl (\<lambda>a b. a * 256 + uint (b :: byte)) a bs \<and>
     foldl (\<lambda>a b. a * 256 + uint b) a bs < (a + 1) * 256 ^ length bs"
proof (induction bs arbitrary: a)
  case Nil
  then show ?case by simp
next
  case (Cons b bs)
  have b: "0 \<le> uint b" "uint b \<le> 255"
    using uint_bounded [of b] by simp_all
  let ?a = "a * 256 + uint b"
  have a0: "0 \<le> ?a" using Cons.prems b by simp
  from Cons.IH [OF a0]
  have ih: "0 \<le> foldl (\<lambda>a b. a * 256 + uint b) ?a bs"
    "foldl (\<lambda>a b. a * 256 + uint b) ?a bs < (?a + 1) * 256 ^ length bs"
    by simp_all
  have "?a + 1 \<le> (a + 1) * 256" using b by simp
  then have "(?a + 1) * 256 ^ length bs \<le> ((a + 1) * 256) * 256 ^ length bs"
    by (rule mult_right_mono) simp
  also have "\<dots> = (a + 1) * 256 ^ length (b # bs)" by (simp add: mult.assoc)
  finally have le: "(?a + 1) * 256 ^ length bs \<le> (a + 1) * 256 ^ length (b # bs)" .
  have "foldl (\<lambda>a b. a * 256 + uint b) ?a bs < (a + 1) * 256 ^ length (b # bs)"
    using ih(2) le by (rule less_le_trans)
  then show ?case using ih(1) by simp
qed

lemma be_int_bounds: "0 \<le> be_int bs \<and> be_int bs < 256 ^ length bs"
  using foldl_be_bounds [of 0 bs] by (simp add: be_int_def)

lemma v4_to_int_bounds:
  assumes "v4_to_int s = Inr x"
  shows "0 \<le> x \<and> x \<le> v4_MAX"
proof -
  from assms obtain bs where bs: "length bs = 4" "x = be_int bs"
    by (auto simp: v4_to_int_def unpack_L_def split: option.splits if_splits)
  with be_int_bounds [of bs] show ?thesis by (simp add: v4_MAX_def)
qed

lemma v6_to_int_bounds:
  assumes "v6_to_int s = Inr x"
  shows "0 \<le> x \<and> x \<le> v6_MAX"
proof -
  from assms obtain bs where bs: "length bs = 16"
      "x = push_bit 64 (be_int (take 8 bs)) OR be_int (drop 8 bs)"
    by (auto simp: v6_to_int_def unpack_QQ_def bindE_def split: option.splits if_splits)
  let ?h = "be_int (take 8 bs)" and ?l = "be_int (drop 8 bs)"
  have h: "0 \<le> ?h" "?h < 2 ^ 64" and l: "0 \<le> ?l" "?l < 2 ^ 64"
    using be_int_bounds [of "take 8 bs"] be_int_bounds [of "drop 8 bs"] bs(1) by simp_all
  have ph: "0 \<le> push_bit 64 ?h" "push_bit 64 ?h < 2 ^ 128"
    using h by (simp_all add: push_bit_eq_mult)
  have "l2": "?l < 2 ^ 128" using l(2) by simp
  have "x < 2 ^ 128" unfolding bs(2) by (rule OR_upper [OF ph(1) ph(2) l2])
  moreover have "0 \<le> x" unfolding bs(2) using ph(1) l(1) by simp
  ultimately show ?thesis by (simp add: v6_MAX_def)
qed

lemma to_int_of_bounds: "to_int_of v s = Inr x \<Longrightarrow> 0 \<le> x \<and> x \<le> max_of v"
  using v4_to_int_bounds v6_to_int_bounds
  by (auto simp: to_int_of_def max_of_def split: if_splits)

section \<open>The arithmetic of a CIDR block\<close>

lemma cidr_hi_eq: "push_bit n k OR (push_bit n 1 - 1) = push_bit n (k::int) + 2 ^ n - 1"
proof -
  have m: "push_bit n (1::int) - 1 = mask n" by (simp add: mask_eq_exp_minus_1)
  have "push_bit n k AND mask n = 0"
    by (simp flip: take_bit_eq_mask add: take_bit_push_bit)
  then have "push_bit n k + mask n = push_bit n k OR mask n"
    by (rule disjunctive_add_eq_or)
  then show ?thesis by (simp add: m mask_eq_exp_minus_1)
qed

lemma cidr_lo_bounds:
  assumes "0 \<le> (a::int)"
  shows "0 \<le> push_bit n (drop_bit n a) \<and> push_bit n (drop_bit n a) \<le> a"
proof -
  have "push_bit n (drop_bit n a) + take_bit n a = a" by (rule bits_ident)
  moreover have "0 \<le> take_bit n a" by simp
  moreover have "0 \<le> push_bit n (drop_bit n a)" using assms by simp
  ultimately show ?thesis by linarith
qed

lemma cidr_hi_bound:
  assumes "0 \<le> (a::int)" "a < 2 ^ w" "n \<le> w"
  shows "push_bit n (drop_bit n a) OR (push_bit n 1 - 1) < 2 ^ w"
proof -
  have "(2::int) ^ n \<le> 2 ^ w" using assms(3) by (rule power_increasing) simp
  moreover have "push_bit n (1::int) = 2 ^ n" by simp
  ultimately have "push_bit n (1::int) - 1 < 2 ^ w" by linarith
  moreover have "push_bit n (drop_bit n a) < 2 ^ w" "0 \<le> push_bit n (drop_bit n a)"
    using cidr_lo_bounds [OF assms(1), of n] assms(2) by linarith+
  ultimately show ?thesis by (intro OR_upper)
qed

section \<open>Splitting a text at a separator\<close>

lemma str_split_no_sep: "sep \<notin> set s \<Longrightarrow> str_split sep s = [s]"
  by (induction s) auto

lemma str_split_append:
  "sep \<notin> set a \<Longrightarrow> str_split sep (a @ sep # p) = a # str_split sep p"
  by (induction a) auto

lemma str_split_two:
  "sep \<notin> set a \<Longrightarrow> sep \<notin> set p \<Longrightarrow> str_split sep (a @ sep # p) = [a, p]"
  by (simp add: str_split_append str_split_no_sep)

section \<open>CIDR construction\<close>

lemma IPNetwork_expand_bounds:
  assumes "str_split CHR ''/'' net = [addr, ptxt]"
    and "py_int ptxt = Some p" "p \<le> w" "to_int_of v addr = Inr a"
  shows "IPNetwork_expand net v w =
           Inr (push_bit (nat (w - p)) (drop_bit (nat (w - p)) a),
                push_bit (nat (w - p)) (drop_bit (nat (w - p)) a) OR (push_bit (nat (w - p)) 1 - 1))"
  using assms by (simp add: IPNetwork_expand_def bindE_def Let_def)

text \<open>
  Claim C4. For a CIDR text \<open>address/p\<close> whose prefix length \<open>p\<close> lies in
  \<open>[0, w]\<close>, where \<open>w\<close> is 32 for version 4 and 128 otherwise, and whose address the
  version's codec reads as \<open>a\<close>, construction succeeds with
  \<open>lo = (a >> (w - p)) << (w - p)\<close> and \<open>hi = lo | ((1 << (w - p)) - 1)\<close>, and
  \<open>__len__\<close> returns \<open>hi - lo + 1\<close>, which is \<open>2 ^ (w - p)\<close>.
\<close>

theorem cidr_bounds:
  assumes "CHR ''/'' \<notin> set addr" "CHR ''/'' \<notin> set ptxt"
    and "py_int ptxt = Some p" "0 \<le> p" "p \<le> w"
    and "v = version_or ver (get_version (PyStr (addr @ ''/'' @ ptxt)))"
    and "w = (if v = 4 then 32 else 128)"
    and "to_int_of v addr = Inr a"
  shows "\<exists>net. IPNetwork_init (addr @ ''/'' @ ptxt) ver = Inr net \<and>
           (let n = nat (w - p);
                lo = push_bit n (drop_bit n a);
                hi = lo OR (push_bit n 1 - 1)
            in bounds net = (lo, hi) \<and> dunder_len net = hi - lo + 1 \<and> dunder_len net = 2 ^ n)"
proof -
  let ?net = "addr @ ''/'' @ ptxt"
  let ?n = "nat (w - p)"
  let ?lo = "push_bit ?n (drop_bit ?n a)"
  let ?hi = "?lo OR (push_bit ?n 1 - 1)"
  have sp: "str_split CHR ''/'' ?net = [addr, ptxt]"
    using assms(1,2) by (simp add: str_split_two)
  have ex: "IPNetwork_expand ?net v w = Inr (?lo, ?hi)"
    by (rule IPNetwork_expand_bounds [OF sp assms(3) assms(5) assms(8)])
  have init: "IPNetwork_init ?net ver =
      Inr \<lparr>version = v, bounds = (?lo, ?hi), network = ?net, bit_width = w\<rparr>"
    using ex assms(6,7) by (simp add: IPNetwork_init_def bindE_def Let_def)
  have hi: "?hi = ?lo + 2 ^ ?n - 1" by (rule cidr_hi_eq)
  show ?thesis
    unfolding init using hi by (simp add: dunder_len_def Let_def)
qed

lemma py_int_24: "py_int ''24'' = Some 24"
  by code_simp

lemma py_int_32: "py_int ''32'' = Some 32"
  by code_simp

lemma to_int_10_0_0_0: "to_int_of 4 ''10.0.0.0'' = Inr 167772160"
  by code_simp

lemma to_int_10_0_0_255: "to_int_of 4 ''10.0.0.255'' = Inr 167772415"
  by code_simp

lemma to_int_2001_db8: "to_int_of 6 ''2001:db8::'' = Inr 42540766411282592856903984951653826560"
  by code_simp

lemma version_10_0_0_0_24:
  "version_or None (get_version (PyStr (''10.0.0.0'' @ ''/'' @ ''24''))) = 4"
  by code_simp

lemma version_2001_db8_32:
  "version_or None (get_version (PyStr (''2001:db8::'' @ ''/'' @ ''32''))) = 6"
  by code_simp

theorem cidr_bounds_witness:
  "py_int ''24'' = Some 24 \<and> to_int_of 4 ''10.0.0.0'' = Inr 167772160 \<and>
   to_int_of 4 ''10.0.0.255'' = Inr 167772415 \<and>
   (\<exists>net. IPNetwork_init ''10.0.0.0/24'' None = Inr net \<and>
      bounds net = (167772160, 167772415) \<and> dunder_len net = 256) \<and>
   py_int ''32'' = Some 32 \<and>
   (\<exists>net. IPNetwork_init ''2001:db8::/32'' None = Inr net \<and>
      bounds net = (42540766411282592856903984951653826560,
                    42540766490510755371168322545197776895) \<and>
      dunder_len net = 2 ^ 96)"
proof -
  have a: "\<exists>net. IPNetwork_init ''10.0.0.0/24'' None = Inr net \<and>
      bounds net = (167772160, 167772415) \<and> dunder_len net = 256"
    using cidr_bounds [of "''10.0.0.0''" "''24''" 24 32 4 None 167772160]
      py_int_24 to_int_10_0_0_0 version_10_0_0_0_24
    by (simp add: Let_def)
  have b: "\<exists>net. IPNetwork_init ''2001:db8::/32'' None = Inr net \<and>
      bounds net = (42540766411282592856903984951653826560,
                    42540766490510755371168322545197776895) \<and>
      dunder_len net = 2 ^ 96"
    using cidr_bounds [of "''2001:db8::''" "''32''" 32 128 6 None
        42540766411282592856903984951653826560]
      py_int_32 to_int_2001_db8 version_2001_db8_32
    by (simp add: Let_def)
  show ?thesis
    using a b py_int_24 to_int_10_0_0_0 to_int_10_0_0_255 py_int_32 by simp
qed

section \<open>Construction and the range invariant\<close>

lemma max_of_pow: "max_of v = 2 ^ nat (if v = 4 then 32 else 128) - 1"
  by (simp add: max_of_def v4_MAX_def v6_MAX_def)

text \<open>The dash form checks the order of its bounds, so every range it returns satisfies
  the invariant.\<close>

lemma IPRange_expand_ordered:
  assumes "IPRange_expand rtxt v = Inr (lo, hi)"
  shows "lo \<le> hi \<and> 0 \<le> lo \<and> hi \<le> max_of v"
proof -
  from assms obtain a b where
    lo: "to_int_of v (str_strip a) = Inr lo" and hi: "to_int_of v (str_strip b) = Inr hi"
    and le: "\<not> hi < lo"
    by (auto simp: IPRange_expand_def bindE_def split: list.splits sum.splits if_splits)
  from to_int_of_bounds [OF lo] to_int_of_bounds [OF hi] le show ?thesis by simp
qed

lemma IPRange_dash_invariant:
  assumes "truthy range0" and "IPRange_init range0 start stop ver = Inr r"
  shows "range_ok r"
proof -
  from assms obtain rt v b where
    ex: "IPRange_expand rt v = Inr b" and r: "version r = v" "bounds r = b"
    by (auto simp: IPRange_init_def bindE_def Let_def split: option.splits if_splits sum.splits)
  obtain lo hi where b: "b = (lo, hi)" by (cases b)
  from IPRange_expand_ordered [OF ex [unfolded b]] r b show ?thesis
    by (simp add: range_ok_def)
qed

text \<open>The pair form stores whatever the codec returns for the two texts, in the order
  given.\<close>

lemma IPRange_pair_unchecked:
  assumes "s \<noteq> []" "t \<noteq> []"
    and "v = version_or ver (get_version (PyStr s))"
    and "to_int_of v (str_strip s) = Inr lo" "to_int_of v (str_strip t) = Inr hi"
  shows "IPRange_init None (Some s) (Some t) ver =
           Inr \<lparr>version = v, bounds = (lo, hi), range_text = Some s\<rparr>"
  using assms by (simp add: IPRange_init_def truthy_def bindE_def Let_def)

text \<open>For a CIDR text with a readable address and prefix length, construction fails
  exactly when the prefix length exceeds the width; there is no lower limit.\<close>

lemma IPNetwork_init_cases:
  assumes "str_split CHR ''/'' net = [addr, ptxt]" and "py_int ptxt = Some p"
    and "v = version_or ver (get_version (PyStr net))"
    and "w = (if v = 4 then 32 else 128)"
    and "to_int_of v addr = Inr a"
  shows "IPNetwork_init net ver =
     (if p > w then Inl ValueError
      else Inr \<lparr>version = v,
                bounds = (push_bit (nat (w - p)) (drop_bit (nat (w - p)) a),
                          push_bit (nat (w - p)) (drop_bit (nat (w - p)) a)
                            OR (push_bit (nat (w - p)) 1 - 1)),
                network = net, bit_width = w\<rparr>)"
proof -
  have slash: "CHR ''/'' \<in> set net"
  proof (rule ccontr)
    assume "CHR ''/'' \<notin> set net"
    then have "str_split CHR ''/'' net = [net]" by (rule str_split_no_sep)
    with assms(1) show False by simp
  qed
  show ?thesis
  proof (cases "p > w")
    case True
    then have "IPNetwork_expand net v w = Inl ValueError"
      using assms(1,2) by (simp add: IPNetwork_expand_def)
    with slash assms(3,4) True show ?thesis
      by (simp add: IPNetwork_init_def bindE_def Let_def)
  next
    case False
    then have "p \<le> w" by simp
    from IPNetwork_expand_bounds [OF assms(1,2) this assms(5)] slash assms(3,4) False
    show ?thesis by (simp add: IPNetwork_init_def bindE_def Let_def)
  qed
qed

text \<open>With a prefix length that is not negative, the CIDR form satisfies the
  invariant.\<close>

lemma IPNetwork_invariant:
  assumes "IPNetwork_init net ver = Inr r"
    and "str_split CHR ''/'' net = [addr, ptxt]" and "py_int ptxt = Some p" and "0 \<le> p"
  shows "range_ok r"
proof -
  define v where "v = version_or ver (get_version (PyStr net))"
  define w :: int where "w = (if v = 4 then 32 else 128)"
  from assms(1) have slash: "CHR ''/'' \<in> set net"
    by (auto simp: IPNetwork_init_def split: if_splits)
  from assms(1) slash obtain b where
    ex: "IPNetwork_expand net v w = Inr b" and r: "version r = v" "bounds r = b"
    by (auto simp: IPNetwork_init_def bindE_def Let_def v_def w_def split: sum.splits if_splits)
  from ex assms(2,3) obtain a where a: "to_int_of v addr = Inr a" and pw: "p \<le> w"
    by (auto simp: IPNetwork_expand_def bindE_def Let_def split: if_splits sum.splits)
  let ?n = "nat (w - p)"
  let ?lo = "push_bit ?n (drop_bit ?n a)"
  let ?hi = "?lo OR (push_bit ?n 1 - 1)"
  have b: "b = (?lo, ?hi)"
    using IPNetwork_expand_bounds [OF assms(2,3) pw a] ex by simp
  have mx: "max_of v = 2 ^ nat w - 1" unfolding w_def by (rule max_of_pow)
  have ab: "0 \<le> a" "a < 2 ^ nat w"
    using to_int_of_bounds [OF a] mx by simp_all
  have nw: "?n \<le> nat w" using assms(4) by simp
  have hi: "?hi < 2 ^ nat w" by (rule cidr_hi_bound [OF ab nw])
  have hi2: "?hi = ?lo + 2 ^ ?n - 1" by (rule cidr_hi_eq)
  have lo: "0 \<le> ?lo" using cidr_lo_bounds [OF ab(1)] by simp
  have "(0::int) < 2 ^ ?n" by simp
  with hi2 have le: "?lo \<le> ?hi" by linarith
  from mx hi have "?hi \<le> max_of v" by simp
  with lo le r b show ?thesis by (simp add: range_ok_def)
qed

text \<open>
  Claim C1 (every constructed range has \<open>lo \<le> hi\<close> and bounds within the version's
  width) does not hold of the code on two construction paths. The pair form
  \<open>IPRange(start='192.168.1.9', stop='192.168.1.1')\<close> returns a range whose lower
  bound is above its upper bound, and \<open>IPNetwork('192.168.1.0/-8')\<close> returns a
  version 4 range whose upper bound is \<open>2 ^ 40 - 1\<close>. The dash form and the CIDR form
  with a prefix length of at least zero do keep the invariant
  (\<open>IPRange_dash_invariant\<close>, \<open>IPNetwork_invariant\<close>).
\<close>

theorem range_invariant_broken:
  "IPRange_init None (Some ''192.168.1.9'') (Some ''192.168.1.1'') None =
     Inr \<lparr>version = 4, bounds = (3232235785, 3232235777), range_text = Some ''192.168.1.9''\<rparr> \<and>
   \<not> range_ok \<lparr>version = 4, bounds = (3232235785, 3232235777),
                 range_text = Some ''192.168.1.9''\<rparr> \<and>
   IPNetwork_init ''192.168.1.0/-8'' None =
     Inr \<lparr>version = 4, bounds = (0, 1099511627775), network = ''192.168.1.0/-8'',
          bit_width = 32\<rparr> \<and>
   \<not> range_ok \<lparr>version = 4, bounds = (0, 1099511627775), network = ''192.168.1.0/-8'',
                 bit_width = 32\<rparr>"
  by code_simp

text \<open>
  Claim C2 (a span whose end is below its start is refused, in the dash form and in the
  pair form alike) does not hold of the pair form:
  \<open>IPRange(start='10.0.0.10', stop='10.0.0.5')\<close> returns a range with bounds
  \<open>(167772170, 167772165)\<close>, while the dash text \<open>'10.0.0.10-10.0.0.5'\<close> for the same
  addresses raises \<open>ValueError\<close>.
\<close>

theorem IPRange_pair_skips_order_check:
  "IPRange_init None (Some ''10.0.0.10'') (Some ''10.0.0.5'') None =
     Inr \<lparr>version = 4, bounds = (167772170, 167772165), range_text = Some ''10.0.0.10''\<rparr> \<and>
   IPRange_init (Some ''10.0.0.10-10.0.0.5'') None None None = Inl ValueError"
  by code_simp

text \<open>
  Claim C3 (a prefix length outside \<open>[0, width]\<close>, a negative one in particular, is
  refused) does not hold for negative prefix lengths: \<open>IPNetwork('10.0.0.0/-1')\<close>
  returns the range \<open>(0, 2 ^ 33 - 1)\<close>, while \<open>'10.0.0.0/33'\<close> raises \<open>ValueError\<close>.
\<close>

theorem IPNetwork_negative_prefix_accepted:
  "IPNetwork_init ''10.0.0.0/-1'' None =
     Inr \<lparr>version = 4, bounds = (0, 8589934591), network = ''10.0.0.0/-1'', bit_width = 32\<rparr> \<and>
   IPNetwork_init ''10.0.0.0/33'' None = Inl ValueError"
  by code_simp

section \<open>The example ranges\<close>

lemma net_10_0_0_0_24_built: "IPNetwork_init ''10.0.0.0/24'' None = Inr net_10_0_0_0_24"
  by code_simp

lemma net_192_168_1_0_24_built:
  "IPNetwork_init ''192.168.1.0/24'' None = Inr net_192_168_1_0_24"
  by code_simp

lemma net_v6_126_built: "IPNetwork_init ''::/126'' None = Inr net_v6_126"
  by code_simp

section \<open>Addresses made by the range protocol\<close>

lemma IPAddress_init_v4: "IPAddress_init (PyInt x) (Some 4) = Inr (address_of x 4)"
  by (simp add: IPAddress_init_def version_or_def bindE_def address_of_def)

lemma IPAddress_init_not_v4:
  "v \<noteq> 0 \<Longrightarrow> v \<noteq> 4 \<Longrightarrow> IPAddress_init x (Some v) = Inl NameError"
  by (simp add: IPAddress_init_def version_or_def bindE_def builtin_long_def)

lemma mapE_Inr: "mapE (\<lambda>x. Inr (g x)) xs = Inr (map g xs)"
  by (induction xs) (simp_all add: bindE_def)

section \<open>Scalar indexing\<close>

text \<open>On a version 4 range an integer index behaves as Python's negative indexing
  prescribes.\<close>

lemma getitem_int_v4:
  assumes "version r = 4"
  shows "dunder_getitem r (IdxInt i) =
     (if - dunder_len r \<le> i \<and> i < 0 then Inr (Addr (address_of (snd (bounds r) + i + 1) 4))
      else if 0 \<le> i \<and> i < dunder_len r then Inr (Addr (address_of (fst (bounds r) + i) 4))
      else Inl IndexError)"
  using assms
  by (simp add: dunder_getitem_def bindE_def except_ValueError_def Let_def IPAddress_init_v4)

text \<open>On a range of any other version every index inside the range raises
  \<open>NameError\<close>, and an index outside it \<open>IndexError\<close>.\<close>

lemma getitem_int_not_v4:
  assumes "version r \<noteq> 4" "version r \<noteq> 0"
  shows "dunder_getitem r (IdxInt i) =
     (if - dunder_len r \<le> i \<and> i < dunder_len r then Inl NameError else Inl IndexError)"
  using assms
  by (simp add: dunder_getitem_def bindE_def except_ValueError_def Let_def
      IPAddress_init_not_v4)

text \<open>
  Claim C6 (\<open>get(i)\<close> returns the address at \<open>hi + i + 1\<close> for \<open>-N \<le> i < 0\<close>, at
  \<open>lo + i\<close> for \<open>0 \<le> i < N\<close>, and fails otherwise) does not hold of the code on a
  version 6 range: \<open>IPNetwork('::/126')\<close> has length 4, and its indices \<open>0\<close> and
  \<open>-1\<close> raise \<open>NameError\<close>, because \<open>IPAddress.__init__\<close> evaluates the unbound name
  \<open>long\<close>. On version 4 ranges the claim holds (\<open>getitem_int_v4\<close>).
\<close>

theorem getitem_int_v6_raises:
  "IPNetwork_init ''::/126'' None = Inr net_v6_126 \<and>
   dunder_len net_v6_126 = 4 \<and>
   dunder_getitem net_v6_126 (IdxInt 0) = Inl NameError \<and>
   dunder_getitem net_v6_126 (IdxInt (- 1)) = Inl NameError \<and>
   dunder_getitem net_v6_126 (IdxInt 4) = Inl IndexError"
  by code_simp

text \<open>
  Claim C7 says that an index that is neither an integer nor a slice always fails and is
  never used as a position. A counterexample: on \<open>IPNetwork('10.0.0.0/24')\<close> the float
  \<open>1.5\<close> (that is \<open>3 * 2 ^ -1\<close>) returns the address at position 1, and the string
  \<open>'5'\<close> the address at position 5.
\<close>

theorem getitem_float_and_str_accepted:
  "IPNetwork_init ''10.0.0.0/24'' None = Inr net_10_0_0_0_24 \<and>
   dunder_getitem net_10_0_0_0_24 (IdxFloat (Finite 3 (- 1))) =
     Inr (Addr (address_of 167772161 4)) \<and>
   dunder_getitem net_10_0_0_0_24 (IdxStr ''5'') = Inr (Addr (address_of 167772165 4))"
  by code_simp

text \<open>
  Claim C7 as amended. An index that is not a slice is first passed to \<open>int()\<close>. A string
  that \<open>int()\<close> cannot read and a NaN fail with \<open>TypeError\<close>, and so does an object
  \<open>int()\<close> refuses; an infinite float fails with \<open>OverflowError\<close>. A string that
  \<open>int()\<close> reads as \<open>n\<close> is the integer index \<open>n\<close>, and a finite float is the integer
  index obtained by truncating it towards zero.
\<close>

theorem getitem_coerces_index:
  "dunder_getitem r (IdxStr s) =
     (case py_int s of None \<Rightarrow> Inl TypeError | Some n \<Rightarrow> dunder_getitem r (IdxInt n)) \<and>
   dunder_getitem r (IdxFloat (Finite m e)) =
     dunder_getitem r (IdxInt (if 0 \<le> e then m * 2 ^ nat e else sgn m * (\<bar>m\<bar> div 2 ^ nat (- e)))) \<and>
   dunder_getitem r (IdxFloat NaN) = Inl TypeError \<and>
   dunder_getitem r (IdxFloat Infinity) = Inl OverflowError \<and>
   dunder_getitem r IdxOther = Inl TypeError"
  by (simp add: dunder_getitem_def bindE_def except_ValueError_def Let_def split: option.splits)

section \<open>Slices\<close>

lemma slice_indices_step: "slice_indices a b c n = Inr (s, t, k) \<Longrightarrow> k \<noteq> 0"
  by (auto simp: slice_indices_def Let_def split: if_splits)

lemma range_len_shift: "range_len (d + s) (d + t) k = range_len s t k"
  by (simp add: range_len_def)

text \<open>
  Claim C5 says that a slice returns Python's selection when that is not empty, and the
  one address at \<open>lo\<close> when it is empty. Two counterexamples on
  \<open>IPNetwork('10.0.0.0/24')\<close>: the slice \<open>[1:2:3]\<close> selects index 1, yet the result
  is the address at \<open>lo\<close>, not at \<open>lo + 1\<close>; the slice \<open>[5:3]\<close> selects nothing, and
  the result is the empty list, not the address at \<open>lo\<close>.
\<close>

theorem getitem_slice_fallback_misfires:
  "IPNetwork_init ''10.0.0.0/24'' None = Inr net_10_0_0_0_24 \<and>
   slice_indices (Some 1) (Some 2) (Some 3) (dunder_len net_10_0_0_0_24) = Inr (1, 2, 3) \<and>
   py_range 1 2 3 = Inr [1] \<and>
   dunder_getitem net_10_0_0_0_24 (Slice (Some 1) (Some 2) (Some 3)) =
     Inr (Addrs [address_of 167772160 4]) \<and>
   dunder_getitem net_10_0_0_0_24 (Slice (Some 1) (Some 2) (Some 3)) \<noteq>
     Inr (Addrs [address_of (167772160 + 1) 4]) \<and>
   slice_indices (Some 5) (Some 3) None (dunder_len net_10_0_0_0_24) = Inr (5, 3, 1) \<and>
   py_range 5 3 1 = Inr [] \<and>
   dunder_getitem net_10_0_0_0_24 (Slice (Some 5) (Some 3) None) = Inr (Addrs []) \<and>
   dunder_getitem net_10_0_0_0_24 (Slice (Some 5) (Some 3) None) \<noteq>
     Inr (Addrs [address_of 167772160 4])"
  by code_simp

text \<open>
  Claim C5 as amended, for a version 4 range. With \<open>(s, t, k) = slice.indices(N)\<close> and
  \<open>sel\<close> the indices \<open>range(s, t, k)\<close> that Python selects: when \<open>s + k < 0\<close> or
  \<open>k > t\<close> the result is the one address at \<open>lo\<close>; otherwise it is the list of the
  addresses at \<open>lo + i\<close> for \<open>i\<close> in \<open>sel\<close>, in that order, empty when \<open>sel\<close> is.
\<close>

theorem getitem_slice:
  assumes "version r = 4"
    and "slice_indices a b c (dunder_len r) = Inr (s, t, k)"
    and "py_range s t k = Inr sel"
  shows "dunder_getitem r (Slice a b c) =
           Inr (Addrs (if s + k < 0 \<or> k > t then [address_of (fst (bounds r)) 4]
                       else map (\<lambda>i. address_of (fst (bounds r) + i) 4) sel))"
proof -
  let ?lo = "fst (bounds r)"
  have k: "k \<noteq> 0" using assms(2) by (rule slice_indices_step)
  have sel: "sel = map (\<lambda>i. s + int i * k) [0..<range_len s t k]"
    using assms(3) k by (simp add: py_range_def)
  have rg: "py_range (?lo + s) (?lo + t) k =
      Inr (map (\<lambda>i. ?lo + i) sel)"
    using k by (simp add: py_range_def range_len_shift sel add.assoc)
  show ?thesis
    using assms(1,2) rg
    by (simp add: dunder_getitem_def bindE_def Let_def IPAddress_init_v4 mapE_Inr comp_def)
qed

lemma slice_2_10_3_indices:
  "slice_indices (Some 2) (Some 10) (Some 3) (dunder_len net_10_0_0_0_24) = Inr (2, 10, 3)"
  by code_simp

lemma range_2_10_3: "py_range 2 10 3 = Inr [2, 5, 8]"
  by code_simp

lemma net_10_0_0_0_24_version: "version net_10_0_0_0_24 = 4"
  by code_simp

lemma net_10_0_0_0_24_lo: "fst (bounds net_10_0_0_0_24) = 167772160"
  by code_simp

theorem getitem_slice_witness:
  "version net_10_0_0_0_24 = 4 \<and>
   slice_indices (Some 2) (Some 10) (Some 3) (dunder_len net_10_0_0_0_24) = Inr (2, 10, 3) \<and>
   py_range 2 10 3 = Inr [2, 5, 8] \<and>
   dunder_getitem net_10_0_0_0_24 (Slice (Some 2) (Some 10) (Some 3)) =
     Inr (Addrs [address_of 167772162 4, address_of 167772165 4, address_of 167772168 4])"
  using getitem_slice [OF net_10_0_0_0_24_version slice_2_10_3_indices range_2_10_3]
    net_10_0_0_0_24_version slice_2_10_3_indices range_2_10_3
  by (simp add: net_10_0_0_0_24_lo)

section \<open>Iteration\<close>

text \<open>On a version 4 range the generator yields the addresses of \<open>lo, lo + 1, \<dots>, hi\<close>
  in this order and then stops.\<close>

lemma drain_v4:
  "g_version g = 4 \<Longrightarrow>
   drain g = Inr (map (\<lambda>x. address_of x 4) [g_start g + g_index g .. g_stop g])"
proof (induction g rule: drain.induct)
  case (1 g)
  show ?case
  proof (cases "g_start g + g_index g > g_stop g")
    case True
    then show ?thesis by (subst drain.simps) (simp add: gen_next_def Let_def)
  next
    case False
    let ?g' = "g\<lparr>g_index := g_index g + 1\<rparr>"
    have nx: "gen_next g = Some (Inr (address_of (g_start g + g_index g) 4, ?g'))"
      using False "1.prems"
      by (simp add: gen_next_def Let_def IPAddress_init_v4 bindE_def)
    have ih: "drain ?g' = Inr (map (\<lambda>x. address_of x 4) [g_start g + g_index g + 1 .. g_stop g])"
      using "1.IH" [OF nx refl refl] "1.prems" by (simp add: add.assoc)
    have up: "[g_start g + g_index g .. g_stop g] =
        (g_start g + g_index g) # [g_start g + g_index g + 1 .. g_stop g]"
      using False by (simp add: upto_rec1)
    show ?thesis
      by (subst drain.simps) (simp add: nx ih up bindE_def)
  qed
qed

lemma iterate_v4:
  assumes "version r = 4"
  shows "drain (iter_gen r) = Inr (map (\<lambda>x. address_of x 4) [fst (bounds r) .. snd (bounds r)])"
  using drain_v4 [of "iter_gen r"] assms by (simp add: iter_gen_def)

lemma iterate_v4_count:
  assumes "version r = 4" "drain (iter_gen r) = Inr as"
  shows "int (length as) = max 0 (dunder_len r)"
  using assms iterate_v4 [OF assms(1)] by (auto simp: dunder_len_def)

text \<open>On a range of any other version that is not empty, the first \<open>next()\<close> raises
  \<open>NameError\<close>.\<close>

lemma iterate_not_v4:
  assumes "version r \<noteq> 4" "version r \<noteq> 0" "fst (bounds r) \<le> snd (bounds r)"
  shows "drain (iter_gen r) = Inl NameError"
  using assms
  by (subst drain.simps)
     (simp add: gen_next_def iter_gen_def Let_def IPAddress_init_not_v4 bindE_def)

text \<open>
  Claim C9 (iterating a range of length \<open>N\<close> yields the \<open>N\<close> addresses of
  \<open>lo, \<dots>, hi\<close> in ascending order) does not hold of the code on a version 6 range:
  iterating \<open>IPNetwork('::/126')\<close>, of length 4, raises \<open>NameError\<close> before the first
  address is yielded, because \<open>IPAddress.__init__\<close> evaluates the unbound name
  \<open>long\<close>. On version 4 ranges the claim holds (\<open>iterate_v4\<close>).
\<close>

theorem iterate_v6_raises:
  "IPNetwork_init ''::/126'' None = Inr net_v6_126 \<and>
   dunder_len net_v6_126 = 4 \<and>
   gen_next (iter_gen net_v6_126) = Some (Inl NameError) \<and>
   drain (iter_gen net_v6_126) = Inl NameError"
  by code_simp

section \<open>Membership\<close>

text \<open>
  Claim C8 says that a candidate is normalised with the range's own codec. A
  counterexample: the range \<open>IPNetwork('::/126')\<close> holds the integers 0 to 3, and its
  codec reads \<open>'::1'\<close> as 1; the candidate \<open>IPAddress('::1', version=4)\<close> is a
  constructed address carrying that text, yet \<open>__contains__\<close> raises \<open>ValueError\<close>
  for it, since \<open>int(ip)\<close> uses the address's own codec.
\<close>

theorem contains_uses_address_codec:
  "IPNetwork_init ''::/126'' None = Inr net_v6_126 \<and>
   IPAddress_init (PyStr ''::1'') (Some 4) =
     Inr \<lparr>ip = PyStr ''::1'', ip_version = 4, int_ = IntType\<rparr> \<and>
   to_int_of (version net_v6_126) ''::1'' = Inr 1 \<and>
   fst (bounds net_v6_126) \<le> 1 \<and> 1 \<le> snd (bounds net_v6_126) \<and>
   dunder_contains net_v6_126 (CVal (PyStr ''::1'')) = Inr True \<and>
   dunder_contains net_v6_126 (CAddr \<lparr>ip = PyStr ''::1'', ip_version = 4, int_ = IntType\<rparr>) =
     Inl ValueError"
  by code_simp

text \<open>
  Claim C8 as amended. A raw integer is compared as it is; a text is read by the range's
  codec; an \<open>IPAddress\<close> is converted by its own \<open>__int__\<close>, that is by the codec of
  the address's version when it holds a text. Whenever that conversion gives an integer
  \<open>x\<close>, \<open>__contains__\<close> returns whether \<open>lo \<le> x \<le> hi\<close> and does not raise. When the
  address and the range agree on being version 4 or not, the address's codec is the
  range's.
\<close>

theorem contains_by_integer:
  "dunder_contains r (CVal (PyInt n)) = Inr (fst (bounds r) \<le> n \<and> n \<le> snd (bounds r)) \<and>
   (to_int_of (version r) s = Inr x \<longrightarrow>
      dunder_contains r (CVal (PyStr s)) = Inr (fst (bounds r) \<le> x \<and> x \<le> snd (bounds r))) \<and>
   (IPAddress_int a = Inr y \<longrightarrow>
      dunder_contains r (CAddr a) = Inr (fst (bounds r) \<le> y \<and> y \<le> snd (bounds r))) \<and>
   (ip a = PyStr t \<and> (ip_version a = 4) = (version r = 4) \<and> to_int_of (version r) t = Inr z \<longrightarrow>
      dunder_contains r (CAddr a) = Inr (fst (bounds r) \<le> z \<and> z \<le> snd (bounds r)))"
  by (auto simp: dunder_contains_def bindE_def IPAddress_int_def to_int_of_def)

lemma to_int_192_168_1_128:
  "to_int_of (version net_192_168_1_0_24) ''192.168.1.128'' = Inr 3232235904"
  by code_simp

lemma address_192_168_2_1_int:
  "IPAddress_int \<lparr>ip = PyStr ''192.168.2.1'', ip_version = 4, int_ = IntType\<rparr> = Inr 3232236033"
  by code_simp

lemma to_int_192_168_2_1:
  "to_int_of (version net_192_168_1_0_24) ''192.168.2.1'' = Inr 3232236033"
  by code_simp

lemma net_192_168_1_0_24_fields:
  "version net_192_168_1_0_24 = 4 \<and> bounds net_192_168_1_0_24 = (3232235776, 3232236031)"
  by code_simp

theorem contains_by_integer_witness:
  "to_int_of (version net_192_168_1_0_24) ''192.168.1.128'' = Inr 3232235904 \<and>
   IPAddress_int \<lparr>ip = PyStr ''192.168.2.1'', ip_version = 4, int_ = IntType\<rparr> = Inr 3232236033 \<and>
   to_int_of (version net_192_168_1_0_24) ''192.168.2.1'' = Inr 3232236033 \<and>
   dunder_contains net_192_168_1_0_24 (CVal (PyInt 3232235777)) = Inr True \<and>
   dunder_contains net_192_168_1_0_24 (CVal (PyStr ''192.168.1.128'')) = Inr True \<and>
   dunder_contains net_192_168_1_0_24
     (CAddr \<lparr>ip = PyStr ''192.168.2.1'', ip_version = 4, int_ = IntType\<rparr>) = Inr False"
  using contains_by_integer [where r = net_192_168_1_0_24 and n = 3232235777
      and s = "''192.168.1.128''" and x = 3232235904
      and a = "\<lparr>ip = PyStr ''192.168.2.1'', ip_version = 4, int_ = IntType\<rparr>"
      and y = 3232236033 and t = "''192.168.2.1''" and z = 3232236033]
    to_int_192_168_1_128 address_192_168_2_1_int to_int_192_168_2_1
    net_192_168_1_0_24_fields
  by simp

section \<open>Version detection of a dotted text\<close>

lemma str_split_not_Nil: "str_split sep s \<noteq> []"
  by (induction s) (auto split: list.splits)

lemma str_split_mem:
  "c \<in> set s \<Longrightarrow> c \<noteq> sep \<Longrightarrow> \<exists>p \<in> set (str_split sep s). c \<in> set p"
proof (induction s)
  case Nil
  then show ?case by simp
next
  case (Cons x xs)
  obtain p ps where sp: "str_split sep xs = p # ps"
    using str_split_not_Nil [of sep xs] by (cases "str_split sep xs") auto
  show ?case
  proof (cases "x = sep")
    case True
    with Cons show ?thesis by auto
  next
    case False
    show ?thesis
    proof (cases "c = x")
      case True
      with False sp show ?thesis by simp
    next
      case False
      with Cons.prems have "c \<in> set xs" by simp
      from Cons.IH [OF this Cons.prems(2)] sp \<open>x \<noteq> sep\<close> show ?thesis by auto
    qed
  qed
qed

lemma those_Some_all: "those xs = Some ys \<Longrightarrow> x \<in> set xs \<Longrightarrow> x \<noteq> None"
  by (induction xs arbitrary: ys) (auto split: option.splits)

lemma octet_digits: "octet p = Some b \<Longrightarrow> c \<in> set p \<Longrightarrow> is_digit c"
  by (auto simp: octet_def digit_group_def list_all_iff split: if_splits)

text \<open>An IPv4 text consists of digits and dots.\<close>

lemma inet_pton4_digits_and_dots:
  assumes "inet_pton4 s = Some bs" "c \<in> set s"
  shows "c = CHR ''.'' \<or> is_digit c"
proof (cases "c = CHR ''.''")
  case True
  then show ?thesis by simp
next
  case False
  from str_split_mem [OF assms(2) False]
  obtain p where p: "p \<in> set (str_split CHR ''.'' s)" "c \<in> set p" by blast
  from assms(1) obtain os where os: "those (map octet (str_split CHR ''.'' s)) = Some os"
    by (auto simp: inet_pton4_def split: option.splits)
  have "octet p \<noteq> None"
    using those_Some_all [OF os, of "octet p"] p(1) by simp
  then obtain b where "octet p = Some b" by blast
  from octet_digits [OF this p(2)] show ?thesis by simp
qed

lemma inet_pton4_colon: "CHR '':'' \<in> set s \<Longrightarrow> inet_pton4 s = None"
proof (rule ccontr)
  assume c: "CHR '':'' \<in> set s" and "inet_pton4 s \<noteq> None"
  then obtain bs where "inet_pton4 s = Some bs" by blast
  from inet_pton4_digits_and_dots [OF this c] show False
    by (simp add: is_digit_def)
qed

lemma inet_pton4_length: "inet_pton4 s = Some bs \<Longrightarrow> length bs = 4"
  by (auto simp: inet_pton4_def split: option.splits if_splits)

lemma hextet_length: "hextet g = Some bs \<Longrightarrow> length bs = 2"
  by (auto simp: hextet_def Let_def split: option.splits if_splits)

lemma split_dcolon_colon: "split_dcolon s = Some (l, r) \<Longrightarrow> CHR '':'' \<in> set s"
  by (induction s arbitrary: l rule: split_dcolon.induct)
     (auto split: if_splits option.splits)

text \<open>An IPv6 text has a colon.\<close>

lemma inet_pton6_colon:
  assumes "inet_pton6 s = Some bs"
  shows "CHR '':'' \<in> set s"
proof (cases "split_dcolon s")
  case (Some lr)
  then show ?thesis using split_dcolon_colon [of s "fst lr" "snd lr"] by simp
next
  case None
  show ?thesis
  proof (rule ccontr)
    assume "CHR '':'' \<notin> set s"
    then have sp: "str_split CHR '':'' s = [s]" by (rule str_split_no_sep)
    from assms None sp obtain gs where g: "groups6 True [s] = Some gs" "length gs = 16"
      by (auto simp: inet_pton6_def split: option.splits if_splits)
    from g(1) have "length gs = 4 \<or> length gs = 2"
      by (auto dest: inet_pton4_length hextet_length split: if_splits)
    with g(2) show False by simp
  qed
qed

text \<open>So no text is read by both codecs.\<close>

lemma v6_text_not_v4: "v6_to_int s = Inr x \<Longrightarrow> v4_to_int s = Inl ValueError"
proof -
  assume "v6_to_int s = Inr x"
  then obtain bs where "inet_pton6 s = Some bs"
    by (auto simp: v6_to_int_def split: option.splits)
  then have "CHR '':'' \<in> set s" by (rule inet_pton6_colon)
  then show ?thesis by (simp add: v4_to_int_def inet_pton4_colon)
qed

text \<open>The text \<open>::ffff:1.2.3.4\<close>, read step by step.\<close>

lemma pton4_1_2_3_4: "inet_pton4 ''1.2.3.4'' = Some [1, 2, 3, 4]"
  by (simp add: inet_pton4_def octet_def digit_group_def is_digit_def dec_value_def digit_val_def)

lemma hextet_ffff: "hextet ''ffff'' = Some [255, 255]"
  by (simp add: hextet_def hex_val_def)

lemma split_dcolon_mapped: "split_dcolon ''::ffff:1.2.3.4'' = Some ([], ''ffff:1.2.3.4'')"
  by simp

lemma groups6_mapped: "groups6 True (fields6 ''ffff:1.2.3.4'') = Some [255, 255, 1, 2, 3, 4]"
  by (simp add: fields6_def pton4_1_2_3_4 hextet_ffff)

lemma groups6_empty: "groups6 False (fields6 []) = Some []"
  by (simp add: fields6_def)

lemma pton6_mapped:
  "inet_pton6 ''::ffff:1.2.3.4'' = Some [0, 0, 0, 0, 0, 0, 0, 0, 0, 0, 255, 255, 1, 2, 3, 4]"
  by (simp add: inet_pton6_def split_dcolon_mapped groups6_mapped groups6_empty numeral_eq_Suc)

lemma v6_to_int_mapped: "v6_to_int ''::ffff:1.2.3.4'' = Inr 281470698652420"
  by (simp add: v6_to_int_def pton6_mapped unpack_QQ_def bindE_def be_int_def)

lemma split_mapped_96:
  "str_split CHR ''/'' ''::ffff:1.2.3.4/96'' = [''::ffff:1.2.3.4'', ''96'']"
  by simp

lemma py_int_96: "py_int ''96'' = Some 96"
  by code_simp

lemma net_mapped_96_built:
  "IPNetwork_init ''::ffff:1.2.3.4/96'' (Some 6) =
     Inr \<lparr>version = 6, bounds = (281470681743360, 281474976710655),
          network = ''::ffff:1.2.3.4/96'', bit_width = 128\<rparr>"
proof -
  have v: "(6::int) = version_or (Some 6) (get_version (PyStr ''::ffff:1.2.3.4/96''))"
    by (simp add: version_or_def)
  have w: "(128::int) = (if (6::int) = 4 then 32 else 128)" by simp
  have a: "to_int_of 6 ''::ffff:1.2.3.4'' = Inr 281470698652420"
    by (simp add: to_int_of_def v6_to_int_mapped)
  show ?thesis
    using IPNetwork_init_cases [OF split_mapped_96 py_int_96 v w a] by simp
qed

text \<open>
  Claim C10 says that for an IPv6 text with an embedded IPv4 tail, constructing the
  address without a version classifies it as version 4 and fails. A counterexample:
  \<open>'::ffff:1.2.3.4'\<close> is read by the IPv6 codec, and \<open>IPAddress('::ffff:1.2.3.4')\<close>
  is constructed, with version 4; the constructor does not read the text.
\<close>

theorem IPAddress_dotted_v6_text_constructed:
  "v6_to_int ''::ffff:1.2.3.4'' = Inr 281470698652420 \<and>
   IPAddress_init (PyStr ''::ffff:1.2.3.4'') None =
     Inr \<lparr>ip = PyStr ''::ffff:1.2.3.4'', ip_version = 4, int_ = IntType\<rparr>"
  by (simp add: v6_to_int_mapped IPAddress_init_def version_or_def bindE_def)

text \<open>
  Claim C10 as amended. Without an explicit version, the version of a text is 4 when it
  has a dot and 6 otherwise. Hence, for a text with a dot that the IPv6 codec reads, the
  address constructed without a version has version 4, and converting it to an integer
  fails with \<open>ValueError\<close>; and for a CIDR text with a dot whose construction succeeds
  with version 6, the text is classified as version 4 and construction without a version
  fails with \<open>ValueError\<close>.
\<close>

theorem dotted_ipv6_text_detected_as_v4:
  "get_version (PyStr s) = (if CHR ''.'' \<in> set s then 4 else 6) \<and>
   (CHR ''.'' \<in> set s \<and> v6_to_int s = Inr x \<longrightarrow>
      IPAddress_init (PyStr s) None = Inr \<lparr>ip = PyStr s, ip_version = 4, int_ = IntType\<rparr> \<and>
      IPAddress_int \<lparr>ip = PyStr s, ip_version = 4, int_ = IntType\<rparr> = Inl ValueError) \<and>
   (CHR ''.'' \<in> set net \<and> IPNetwork_init net (Some 6) = Inr r \<longrightarrow>
      get_version (PyStr net) = 4 \<and> IPNetwork_init net None = Inl ValueError)"
proof (intro conjI impI)
  show "get_version (PyStr s) = (if CHR ''.'' \<in> set s then 4 else 6)" by simp
next
  assume a: "CHR ''.'' \<in> set s \<and> v6_to_int s = Inr x"
  then show "IPAddress_init (PyStr s) None = Inr \<lparr>ip = PyStr s, ip_version = 4, int_ = IntType\<rparr>"
    by (simp add: IPAddress_init_def version_or_def bindE_def)
  from a have "v4_to_int s = Inl ValueError" using v6_text_not_v4 by blast
  then show "IPAddress_int \<lparr>ip = PyStr s, ip_version = 4, int_ = IntType\<rparr> = Inl ValueError"
    by (simp add: IPAddress_int_def to_int_of_def)
next
  assume a: "CHR ''.'' \<in> set net \<and> IPNetwork_init net (Some 6) = Inr r"
  then show "get_version (PyStr net) = 4" by simp
  from a have slash: "CHR ''/'' \<in> set net"
    by (auto simp: IPNetwork_init_def split: if_splits)
  from a slash have ex: "\<exists>b. IPNetwork_expand net 6 128 = Inr b"
    by (auto simp: IPNetwork_init_def version_or_def bindE_def Let_def split: sum.splits)
  then obtain ip0 cidr c y where
    sp: "str_split CHR ''/'' net = [ip0, cidr]" and c: "py_int cidr = Some c" and
    v6: "v6_to_int ip0 = Inr y"
    by (auto simp: IPNetwork_expand_def bindE_def Let_def to_int_of_def
        split: list.splits option.splits if_splits sum.splits)
  from v6 have v4: "v4_to_int ip0 = Inl ValueError" by (rule v6_text_not_v4)
  have "IPNetwork_expand net 4 32 = Inl ValueError"
    using sp c v4 by (simp add: IPNetwork_expand_def bindE_def Let_def to_int_of_def)
  then show "IPNetwork_init net None = Inl ValueError"
    using a slash by (simp add: IPNetwork_init_def version_or_def bindE_def Let_def)
qed

theorem dotted_ipv6_text_detected_as_v4_witness:
  "CHR ''.'' \<in> set ''::ffff:1.2.3.4'' \<and>
   v6_to_int ''::ffff:1.2.3.4'' = Inr 281470698652420 \<and>
   get_version (PyStr ''::ffff:1.2.3.4'') = 4 \<and>
   IPAddress_int \<lparr>ip = PyStr ''::ffff:1.2.3.4'', ip_version = 4, int_ = IntType\<rparr> =
     Inl ValueError \<and>
   CHR ''.'' \<in> set ''::ffff:1.2.3.4/96'' \<and>
   IPNetwork_init ''::ffff:1.2.3.4/96'' (Some 6) =
     Inr \<lparr>version = 6, bounds = (281470681743360, 281474976710655),
          network = ''::ffff:1.2.3.4/96'', bit_width = 128\<rparr> \<and>
   IPNetwork_init ''::ffff:1.2.3.4/96'' None = Inl ValueError"
  using dotted_ipv6_text_detected_as_v4 [where s = "''::ffff:1.2.3.4''"
      and x = 281470698652420 and net = "''::ffff:1.2.3.4/96''"
      and r = "\<lparr>version = 6, bounds = (281470681743360, 281474976710655),
                 network = ''::ffff:1.2.3.4/96'', bit_width = 128\<rparr>"]
    v6_to_int_mapped net_mapped_96_built
  by simp

section \<open>What \<open>int()\<close> refuses\<close>

text \<open>The separators U+001C to U+001F are whitespace for \<open>str.strip\<close> but not for
  \<open>int()\<close>, while U+0085 and U+00A0 are whitespace for both. So a prefix length or a
  string index written with one of the former is refused.\<close>

lemma py_int_refuses_separators:
  "py_int (CHR 0x1C # ''24'') = None \<and> py_int (CHR 0x1F # ''5'') = None \<and>
   py_int (''24'' @ [CHR 0x1D]) = None \<and>
   py_int (CHR 0xA0 # '' 24'' @ [CHR 0x85, CHR 0x09]) = Some 24"
  by code_simp

lemma IPNetwork_prefix_with_separator_refused:
  "IPNetwork_init (''10.0.0.0/'' @ [CHR 0x1C] @ ''24'') None = Inl ValueError"
  by code_simp

lemma getitem_str_with_separator_refused:
  "dunder_getitem net_10_0_0_0_24 (IdxStr (CHR 0x1F # ''5'')) = Inl TypeError"
  by code_simp

text \<open>A text that \<open>int()\<close> reads has at most \<open>max_str_digits\<close> digits.\<close>

lemma py_int_digit_limit:
  assumes "py_int s = Some n"
  shows "length (filter is_digit s) \<le> max_str_digits"
proof -
  let ?t = "rev (dropWhile int_isspace (rev (dropWhile int_isspace s)))"
  let ?d = "case ?t of [] \<Rightarrow> [] | c # r \<Rightarrow> if c = CHR ''-'' \<or> c = CHR ''+'' then r else ?t"
  from assms have lim: "length (filter (\<lambda>c. c \<noteq> CHR ''_'') ?d) \<le> max_str_digits"
    by (auto simp: py_int_def Let_def split: if_splits)
  have us: "\<not> is_digit CHR ''_''" "\<not> is_digit CHR ''-''" "\<not> is_digit CHR ''+''"
    by (simp_all add: is_digit_def)
  have sp: "\<not> is_digit c" if "int_isspace c" for c
    using that by (auto simp: int_isspace_def is_digit_def)
  have drop: "filter is_digit (dropWhile int_isspace xs) = filter is_digit xs" for xs
    by (induction xs) (auto simp: sp)
  have t: "filter is_digit ?t = filter is_digit s"
    by (simp add: drop flip: rev_filter)
  have sign: "filter is_digit
      (case u of [] \<Rightarrow> [] | c # r \<Rightarrow> if c = CHR ''-'' \<or> c = CHR ''+'' then r else u) =
      filter is_digit u" for u
    using us by (cases u) auto
  have d: "filter is_digit ?d = filter is_digit ?t"
    by (rule sign)
  have fd: "filter is_digit xs = filter is_digit (filter (\<lambda>c. c \<noteq> CHR ''_'') xs)" for xs
    using us(1) by (induction xs) auto
  have "length (filter is_digit ?d) \<le> length (filter (\<lambda>c. c \<noteq> CHR ''_'') ?d)"
    by (subst fd) (rule length_filter_le)
  with lim have "length (filter is_digit ?d) \<le> max_str_digits" by simp
  then show ?thesis by (simp only: d t)
qed

end
